theory Spec2Isabelle
  imports Complex_Main
begin

section \<open>Python values\<close>

text \<open>
  The values that travel through the service are the ones \<open>request.get_json()\<close> and
  \<open>response.json()\<close> produce: \<open>None\<close> (JSON null), booleans, integers, floats, strings,
  lists and dictionaries with string keys. A dictionary is an association list in
  insertion order, which is the order Python iterates it in; a well-formed dictionary has
  distinct keys, and a lookup takes the first entry of a key.
\<close>

datatype pyval =
    PNone
  | PBool bool
  | PInt int
  | PFloat real
  | PStr string
  | PList "pyval list"
  | PDict "(string \<times> pyval) list"

type_synonym pydict = "(string \<times> pyval) list"

text \<open>
  An exception carries its class name and the text \<open>str(e)\<close> yields. The texts of the
  exceptions the interpreter itself raises are those of CPython 3.11.
\<close>

datatype py_exception = PyExc (exc_class: string) (exc_str: string)

fun type_name :: "pyval \<Rightarrow> string" where
  "type_name PNone = ''NoneType''"
| "type_name (PBool _) = ''bool''"
| "type_name (PInt _) = ''int''"
| "type_name (PFloat _) = ''float''"
| "type_name (PStr _) = ''str''"
| "type_name (PList _) = ''list''"
| "type_name (PDict _) = ''dict''"

definition quoted :: "string \<Rightarrow> string" where
  "quoted s = [CHR 0x27] @ s @ [CHR 0x27]"

definition no_attribute :: "pyval \<Rightarrow> string \<Rightarrow> py_exception" where
  "no_attribute v a =
     PyExc ''AttributeError''
       (quoted (type_name v) @ '' object has no attribute '' @ quoted a)"

definition key_error :: "string \<Rightarrow> py_exception" where
  "key_error k = PyExc ''KeyError'' (quoted k)"

text \<open>\<open>bool(v)\<close>: what \<open>not v\<close>, \<open>if v\<close> and \<open>v or w\<close> test.\<close>

fun truthy :: "pyval \<Rightarrow> bool" where
  "truthy PNone = False"
| "truthy (PBool b) = b"
| "truthy (PInt n) = (n \<noteq> 0)"
| "truthy (PFloat r) = (r \<noteq> 0)"
| "truthy (PStr s) = (s \<noteq> [])"
| "truthy (PList xs) = (xs \<noteq> [])"
| "truthy (PDict kvs) = (kvs \<noteq> [])"

definition py_or :: "pyval \<Rightarrow> pyval \<Rightarrow> pyval" where
  "py_or a b = (if truthy a then a else b)"

text \<open>\<open>isinstance(v, int)\<close>: \<open>bool\<close> is a subclass of \<open>int\<close>.\<close>

fun isinstance_int :: "pyval \<Rightarrow> bool" where
  "isinstance_int (PInt _) = True"
| "isinstance_int (PBool _) = True"
| "isinstance_int _ = False"

section \<open>Client: \<open>extract_node_id\<close>\<close>

text \<open>
  The nested function \<open>find_id\<close>. The two \<open>for\<close> loops are the functions
  \<open>find_id_items\<close> (over \<open>obj.items()\<close>) and \<open>find_id_list\<close>; leaving a loop without
  a \<open>return\<close> reaches the final \<open>return None\<close>.
\<close>

fun find_id :: "pyval \<Rightarrow> pyval"
  and find_id_items :: "(string \<times> pyval) list \<Rightarrow> pyval"
  and find_id_list :: "pyval list \<Rightarrow> pyval" where
  "find_id (PDict kvs) = find_id_items kvs"
| "find_id (PList xs) = find_id_list xs"
| "find_id PNone = PNone"
| "find_id (PBool _) = PNone"
| "find_id (PInt _) = PNone"
| "find_id (PFloat _) = PNone"
| "find_id (PStr _) = PNone"
| "find_id_items [] = PNone"
| "find_id_items ((k, v) # kvs) =
     (if (k = ''id'' \<or> k = ''identity'') \<and> isinstance_int v then v
      else let result = find_id v in
        if result \<noteq> PNone then result else find_id_items kvs)"
| "find_id_list [] = PNone"
| "find_id_list (item # items) =
     (let result = find_id item in
        if result \<noteq> PNone then result else find_id_list items)"

text \<open>
  \<open>extract_node_id(response)\<close>. \<open>response['n'].get\<close> exists only on a dictionary; on
  any other value the attribute lookup raises \<open>AttributeError\<close>.
\<close>

definition dict_get :: "pydict \<Rightarrow> string \<Rightarrow> pyval \<Rightarrow> pyval" where
  "dict_get d k dflt = (case map_of d k of Some v \<Rightarrow> v | None \<Rightarrow> dflt)"

definition extract_node_id :: "pydict \<Rightarrow> py_exception + pyval" where
  "extract_node_id response =
     (case map_of response ''n'' of
        Some n \<Rightarrow>
          (case n of
             PDict nd \<Rightarrow> Inr (dict_get nd ''identity'' (dict_get nd ''id'' PNone))
           | _ \<Rightarrow> Inl (no_attribute n ''get''))
      | None \<Rightarrow>
          (case response of
             (k0, PDict potential_node) # _ \<Rightarrow>
               (case map_of potential_node ''identity'' of
                  Some v \<Rightarrow> Inr v
                | None \<Rightarrow>
                    (case map_of potential_node ''id'' of
                       Some v \<Rightarrow> Inr v
                     | None \<Rightarrow> Inr (find_id (PDict response))))
           | _ \<Rightarrow> Inr (find_id (PDict response))))"

section \<open>Server: strings, membership and subscripts\<close>

text \<open>
  A character of a string is a Unicode code point below 256, the range of HOL's
  \<open>char\<close>; \<open>codepoints\<close> lists the code points of a string.

  \<open>isspace\<close> holds of the characters \<open>str.strip()\<close> removes. Below 256 these are the
  code points 9 to 13, 28 to 32, 133 (U+0085) and 160 (U+00A0).

  \<open>upper\<close> is \<open>str.upper()\<close>, which replaces every character by its capital. Below
  256 the characters with a capital other than themselves are \<open>a\<close> to \<open>z\<close> and 224 to
  254 without 247, whose capital lies 32 below, and three more: the capital of 223
  (U+00DF) is the two letters \<open>SS\<close>, that of 181 (U+00B5) is U+039C and that of 255
  (U+00FF) is U+0178. The last two lie beyond 255, so \<open>upper\<close> yields code points.
\<close>

definition codepoints :: "string \<Rightarrow> nat list" where
  "codepoints s = map of_char s"

definition isspace :: "char \<Rightarrow> bool" where
  "isspace c =
     (let n = (of_char c :: nat) in
        (9 \<le> n \<and> n \<le> 13) \<or> (28 \<le> n \<and> n \<le> 32) \<or> n = 133 \<or> n = 160)"

definition upper_char :: "char \<Rightarrow> nat list" where
  "upper_char c =
     (let n = (of_char c :: nat) in
        if (97 \<le> n \<and> n \<le> 122) \<or> (224 \<le> n \<and> n \<le> 254 \<and> n \<noteq> 247) then [n - 32]
        else if n = 223 then [83, 83]
        else if n = 181 then [924]
        else if n = 255 then [376]
        else [n])"

definition upper :: "string \<Rightarrow> nat list" where
  "upper s = concat (map upper_char s)"

definition lstrip :: "string \<Rightarrow> string" where
  "lstrip s = dropWhile isspace s"

definition rstrip :: "string \<Rightarrow> string" where
  "rstrip s = rev (dropWhile isspace (rev s))"

definition strip :: "string \<Rightarrow> string" where
  "strip s = rstrip (lstrip s)"

definition startswith :: "'a list \<Rightarrow> 'a list \<Rightarrow> bool" where
  "startswith s p = (take (length p) s = p)"

text \<open>
  \<open>s.startswith((p1, ..., pn))\<close> with a tuple of prefixes, for the code points \<open>s\<close> of
  an uppercased text.
\<close>

definition startswith_any :: "nat list \<Rightarrow> string list \<Rightarrow> bool" where
  "startswith_any s ps = list_ex (\<lambda>p. startswith s (codepoints p)) ps"

fun join :: "string \<Rightarrow> string list \<Rightarrow> string" where
  "join sep [] = []"
| "join sep [x] = x"
| "join sep (x # y # ys) = x @ sep @ join sep (y # ys)"

text \<open>\<open>sub in s\<close> on two strings.\<close>

fun str_contains :: "string \<Rightarrow> string \<Rightarrow> bool" where
  "str_contains [] sub = (sub = [])"
| "str_contains (c # cs) sub = (startswith (c # cs) sub \<or> str_contains cs sub)"

text \<open>
  \<open>field in data\<close> for a string \<open>field\<close>: key membership in a dictionary, element
  membership in a list, substring test in a string, and \<open>TypeError\<close> on a value that
  is no container.
\<close>

fun py_contains :: "pyval \<Rightarrow> string \<Rightarrow> py_exception + bool" where
  "py_contains (PDict kvs) field = Inr (map_of kvs field \<noteq> None)"
| "py_contains (PList xs) field = Inr (PStr field \<in> set xs)"
| "py_contains (PStr s) field = Inr (str_contains s field)"
| "py_contains v field =
     Inl (PyExc ''TypeError''
       (''argument of type '' @ quoted (type_name v) @ '' is not iterable''))"

text \<open>\<open>all(field in data for field in fields)\<close>: stops at the first \<open>False\<close>.\<close>

fun all_fields_in :: "pyval \<Rightarrow> string list \<Rightarrow> py_exception + bool" where
  "all_fields_in data [] = Inr True"
| "all_fields_in data (field # fields) =
     (case py_contains data field of
        Inl e \<Rightarrow> Inl e
      | Inr present \<Rightarrow> if present then all_fields_in data fields else Inr False)"

text \<open>\<open>data[key]\<close> for a string \<open>key\<close>.\<close>

fun py_getitem :: "pyval \<Rightarrow> string \<Rightarrow> py_exception + pyval" where
  "py_getitem (PDict kvs) key =
     (case map_of kvs key of Some v \<Rightarrow> Inr v | None \<Rightarrow> Inl (key_error key))"
| "py_getitem (PList xs) key =
     Inl (PyExc ''TypeError'' ''list indices must be integers or slices, not str'')"
| "py_getitem (PStr s) key =
     Inl (PyExc ''TypeError'' (''string indices must be integers, not '' @ quoted ''str''))"
| "py_getitem v key =
     Inl (PyExc ''TypeError'' (quoted (type_name v) @ '' object is not subscriptable''))"

text \<open>\<open>data.get(key, dflt)\<close>: only a dictionary has the method.\<close>

fun py_get :: "pyval \<Rightarrow> string \<Rightarrow> pyval \<Rightarrow> py_exception + pyval" where
  "py_get (PDict kvs) key dflt = Inr (dict_get kvs key dflt)"
| "py_get v key dflt = Inl (no_attribute v ''get'')"

text \<open>\<open>v > 0\<close> and \<open>v == 1\<close> against an integer literal.\<close>

fun py_gt_int :: "pyval \<Rightarrow> int \<Rightarrow> py_exception + bool" where
  "py_gt_int (PInt n) i = Inr (n > i)"
| "py_gt_int (PBool b) i = Inr ((if b then 1 else 0) > i)"
| "py_gt_int (PFloat r) i = Inr (r > of_int i)"
| "py_gt_int v i =
     Inl (PyExc ''TypeError''
       (quoted ''>'' @ '' not supported between instances of '' @ quoted (type_name v)
          @ '' and '' @ quoted ''int''))"

fun py_eq_int :: "pyval \<Rightarrow> int \<Rightarrow> bool" where
  "py_eq_int (PInt n) i = (n = i)"
| "py_eq_int (PBool b) i = ((if b then 1 else 0) = i)"
| "py_eq_int (PFloat r) i = (r = of_int i)"
| "py_eq_int v i = False"

section \<open>Server: the database adapter\<close>

text \<open>
  The graph database and its driver are outside the service. A session's \<open>run\<close> and
  \<open>write_transaction\<close> are parameters: given the query text and the parameter value,
  each acts on the database state and either raises or yields the rows, every row the
  dictionary \<open>record.data()\<close>. Opening the session, running the query and iterating the
  result are one call here; an exception of any of them is its \<open>Inl\<close>.
  \<open>format_value\<close> is the text an f-string puts in for a value that is not a string.
\<close>

record 'db driver =
  session_run :: "string \<Rightarrow> pyval \<Rightarrow> 'db \<Rightarrow> (py_exception + pydict list) \<times> 'db"
  write_transaction :: "string \<Rightarrow> pyval \<Rightarrow> 'db \<Rightarrow> (py_exception + pydict list) \<times> 'db"
  format_value :: "pyval \<Rightarrow> string"

definition fstring_value :: "'db driver \<Rightarrow> pyval \<Rightarrow> string" where
  "fstring_value drv v = (case v of PStr s \<Rightarrow> s | _ \<Rightarrow> format_value drv v)"

text \<open>\<open>result.single()\<close>: the first record, \<open>None\<close> when there is none.\<close>

definition single :: "pydict list \<Rightarrow> pydict option" where
  "single rows = (case rows of [] \<Rightarrow> None | r # _ \<Rightarrow> Some r)"

definition verify_connectivity_try ::
  "'db driver \<Rightarrow> 'db \<Rightarrow> (py_exception + bool) \<times> 'db" where
  "verify_connectivity_try drv s =
     (case session_run drv ''RETURN 1 AS result'' PNone s of
        (Inl e, s') \<Rightarrow> (Inl e, s')
      | (Inr rows, s') \<Rightarrow>
          (case single rows of
             None \<Rightarrow>
               (Inl (PyExc ''TypeError''
                  (quoted ''NoneType'' @ '' object is not subscriptable'')), s')
           | Some r \<Rightarrow>
               (case map_of r ''result'' of
                  None \<Rightarrow> (Inl (key_error ''result''), s')
                | Some v \<Rightarrow> (Inr (py_eq_int v 1), s'))))"

definition verify_connectivity :: "'db driver \<Rightarrow> 'db \<Rightarrow> bool \<times> 'db" where
  "verify_connectivity drv s =
     (case verify_connectivity_try drv s of
        (Inl e, s') \<Rightarrow> (False, s')
      | (Inr b, s') \<Rightarrow> (b, s'))"

definition execute_read_query ::
  "'db driver \<Rightarrow> string \<Rightarrow> pyval \<Rightarrow> 'db \<Rightarrow> (py_exception + pydict list) \<times> 'db" where
  "execute_read_query drv query params s = session_run drv query (py_or params (PDict [])) s"

definition execute_write_query ::
  "'db driver \<Rightarrow> string \<Rightarrow> pyval \<Rightarrow> 'db \<Rightarrow> (py_exception + pydict list) \<times> 'db" where
  "execute_write_query drv query params s =
     write_transaction drv query (py_or params (PDict [])) s"

text \<open>\<open>result[0] if result else {}\<close>\<close>

definition first_or_empty :: "pydict list \<Rightarrow> pydict" where
  "first_or_empty result = (case result of [] \<Rightarrow> [] | r # _ \<Rightarrow> r)"

definition create_node_query :: "string \<Rightarrow> string" where
  "create_node_query label =
     ''\<newline>        CREATE (n:'' @ label @ '' $props)\<newline>''
     @ ''        SET n.created_at = datetime()\<newline>''
     @ ''        RETURN n\<newline>        ''"

definition Neo4jService_create_node ::
  "'db driver \<Rightarrow> string \<Rightarrow> pyval \<Rightarrow> 'db \<Rightarrow> (py_exception + pydict) \<times> 'db" where
  "Neo4jService_create_node drv label properties s =
     (case execute_write_query drv (create_node_query label)
             (PDict [(''props'', properties)]) s of
        (Inl e, s') \<Rightarrow> (Inl e, s')
      | (Inr result, s') \<Rightarrow> (Inr (first_or_empty result), s'))"

definition get_node_query :: "string" where
  "get_node_query =
     ''\<newline>        MATCH (n) \<newline>''
     @ ''        WHERE id(n) = $node_id \<newline>''
     @ ''        RETURN n\<newline>        ''"

definition get_node_by_id ::
  "'db driver \<Rightarrow> int \<Rightarrow> 'db \<Rightarrow> (py_exception + pydict option) \<times> 'db" where
  "get_node_by_id drv node_id s =
     (case execute_read_query drv get_node_query (PDict [(''node_id'', PInt node_id)]) s of
        (Inl e, s') \<Rightarrow> (Inl e, s')
      | (Inr result, s') \<Rightarrow> (Inr (case result of [] \<Rightarrow> None | r # _ \<Rightarrow> Some r), s'))"

definition update_node_query :: "string" where
  "update_node_query =
     ''\<newline>        MATCH (n) \<newline>''
     @ ''        WHERE id(n) = $node_id \<newline>''
     @ ''        SET n += $props,\<newline>''
     @ ''            n.updated_at = datetime()\<newline>''
     @ ''        RETURN n\<newline>        ''"

definition Neo4jService_update_node ::
  "'db driver \<Rightarrow> int \<Rightarrow> pyval \<Rightarrow> 'db \<Rightarrow> (py_exception + pydict) \<times> 'db" where
  "Neo4jService_update_node drv node_id properties s =
     (case execute_write_query drv update_node_query
             (PDict [(''node_id'', PInt node_id), (''props'', properties)]) s of
        (Inl e, s') \<Rightarrow> (Inl e, s')
      | (Inr result, s') \<Rightarrow> (Inr (first_or_empty result), s'))"

definition delete_node_query :: "string" where
  "delete_node_query =
     ''\<newline>        MATCH (n) \<newline>''
     @ ''        WHERE id(n) = $node_id \<newline>''
     @ ''        DETACH DELETE n\<newline>''
     @ ''        RETURN count(n) as deleted\<newline>        ''"

text \<open>\<open>result[0]["deleted"] > 0 if result else False\<close>\<close>

definition deleted_positive :: "pydict list \<Rightarrow> py_exception + bool" where
  "deleted_positive result =
     (case result of
        [] \<Rightarrow> Inr False
      | r # _ \<Rightarrow>
          (case map_of r ''deleted'' of
             None \<Rightarrow> Inl (key_error ''deleted'')
           | Some v \<Rightarrow> py_gt_int v 0))"

definition Neo4jService_delete_node ::
  "'db driver \<Rightarrow> int \<Rightarrow> 'db \<Rightarrow> (py_exception + bool) \<times> 'db" where
  "Neo4jService_delete_node drv node_id s =
     (case execute_write_query drv delete_node_query (PDict [(''node_id'', PInt node_id)]) s of
        (Inl e, s') \<Rightarrow> (Inl e, s')
      | (Inr result, s') \<Rightarrow> (deleted_positive result, s'))"

definition create_relationship_query :: "string \<Rightarrow> string" where
  "create_relationship_query rel_type =
     ''\<newline>        MATCH (a), (b) \<newline>''
     @ ''        WHERE id(a) = $from_id AND id(b) = $to_id\<newline>''
     @ ''        CREATE (a)-[r:'' @ rel_type @ '' $props]->(b)\<newline>''
     @ ''        SET r.created_at = datetime()\<newline>''
     @ ''        RETURN r\<newline>        ''"

definition Neo4jService_create_relationship ::
  "'db driver \<Rightarrow> pyval \<Rightarrow> pyval \<Rightarrow> pyval \<Rightarrow> pyval \<Rightarrow> 'db \<Rightarrow> (py_exception + pydict) \<times> 'db" where
  "Neo4jService_create_relationship drv from_id to_id rel_type properties s =
     (case execute_write_query drv (create_relationship_query (fstring_value drv rel_type))
             (PDict [(''from_id'', from_id), (''to_id'', to_id),
                     (''props'', py_or properties (PDict []))]) s of
        (Inl e, s') \<Rightarrow> (Inl e, s')
      | (Inr result, s') \<Rightarrow> (Inr (first_or_empty result), s'))"

definition write_keywords :: "string list" where
  "write_keywords = [''CREATE'', ''DELETE'', ''MERGE'', ''SET'']"

text \<open>
  \<open>run_custom_query(query, params)\<close>. The endpoint passes whatever JSON value stands
  under \<open>"query"\<close>; \<open>strip\<close> exists only on a string.
\<close>

definition run_custom_query ::
  "'db driver \<Rightarrow> pyval \<Rightarrow> pyval \<Rightarrow> 'db \<Rightarrow> (py_exception + pydict list) \<times> 'db" where
  "run_custom_query drv query params s =
     (case query of
        PStr q \<Rightarrow>
          (if startswith_any (upper (strip q)) write_keywords
           then execute_write_query drv q params s
           else execute_read_query drv q params s)
      | _ \<Rightarrow> (Inl (no_attribute query ''strip''), s))"

section \<open>Server: the HTTP endpoints\<close>

text \<open>
  A view returns a body and a status code. \<open>jsonify(v)\<close> is the JSON body \<open>v\<close>; the
  delete endpoint answers with the empty text. A handler takes what
  \<open>request.get_json()\<close> returned (\<open>PNone\<close> when there is no body) and the database
  state; \<open>Inl\<close> is an exception that leaves the handler.
\<close>

datatype http_body = JsonBody pyval | TextBody string

type_synonym response = "http_body \<times> nat"

definition jsonify :: "pyval \<Rightarrow> http_body" where
  "jsonify v = JsonBody v"

definition error_json :: "string \<Rightarrow> http_body" where
  "error_json msg = jsonify (PDict [(''error'', PStr msg)])"

definition health_check :: "'db driver \<Rightarrow> 'db \<Rightarrow> (py_exception + response) \<times> 'db" where
  "health_check drv s =
     (case verify_connectivity drv s of
        (connectivity, s') \<Rightarrow>
          (let status = (if connectivity then ''healthy'' else ''unhealthy'') in
           (Inr (jsonify (PDict [(''status'', PStr status),
                                 (''database_connection'', PBool connectivity)]),
                 if connectivity then 200 else 503), s')))"

definition create_node ::
  "'db driver \<Rightarrow> string \<Rightarrow> pyval \<Rightarrow> 'db \<Rightarrow> (py_exception + response) \<times> 'db" where
  "create_node drv label data s =
     (if \<not> truthy data then (Inr (error_json ''No data provided'', 400), s)
      else
        (case Neo4jService_create_node drv label data s of
           (Inr result, s') \<Rightarrow> (Inr (jsonify (PDict result), 201), s')
         | (Inl e, s') \<Rightarrow> (Inr (error_json (exc_str e), 500), s')))"

definition get_node :: "'db driver \<Rightarrow> int \<Rightarrow> 'db \<Rightarrow> (py_exception + response) \<times> 'db" where
  "get_node drv node_id s =
     (case get_node_by_id drv node_id s of
        (Inr result, s') \<Rightarrow>
          (case result of
             Some r \<Rightarrow>
               if r \<noteq> [] then (Inr (jsonify (PDict r), 200), s')
               else (Inr (error_json ''Node not found'', 404), s')
           | None \<Rightarrow> (Inr (error_json ''Node not found'', 404), s'))
      | (Inl e, s') \<Rightarrow> (Inr (error_json (exc_str e), 500), s'))"

definition update_node ::
  "'db driver \<Rightarrow> int \<Rightarrow> pyval \<Rightarrow> 'db \<Rightarrow> (py_exception + response) \<times> 'db" where
  "update_node drv node_id data s =
     (if \<not> truthy data then (Inr (error_json ''No data provided'', 400), s)
      else
        (case Neo4jService_update_node drv node_id data s of
           (Inr result, s') \<Rightarrow>
             if result \<noteq> [] then (Inr (jsonify (PDict result), 200), s')
             else (Inr (error_json ''Node not found'', 404), s')
         | (Inl e, s') \<Rightarrow> (Inr (error_json (exc_str e), 500), s')))"

definition delete_node :: "'db driver \<Rightarrow> int \<Rightarrow> 'db \<Rightarrow> (py_exception + response) \<times> 'db" where
  "delete_node drv node_id s =
     (case Neo4jService_delete_node drv node_id s of
        (Inr success, s') \<Rightarrow>
          if success then (Inr (TextBody [], 204), s')
          else (Inr (error_json ''Node not found'', 404), s')
      | (Inl e, s') \<Rightarrow> (Inr (error_json (exc_str e), 500), s'))"

definition required_fields :: "string list" where
  "required_fields = [''from_id'', ''to_id'', ''type'']"

definition required_fields_response :: response where
  "required_fields_response =
     (error_json (''Required fields: '' @ join '', '' required_fields), 400)"

text \<open>
  The arguments of the adapter call are evaluated inside the \<open>try\<close> block, left to
  right; the first one that raises ends the evaluation.
\<close>

definition create_relationship_args ::
  "pyval \<Rightarrow> py_exception + (pyval \<times> pyval \<times> pyval \<times> pyval)" where
  "create_relationship_args data =
     (case py_getitem data ''from_id'' of
        Inl e \<Rightarrow> Inl e
      | Inr from_id \<Rightarrow>
          (case py_getitem data ''to_id'' of
             Inl e \<Rightarrow> Inl e
           | Inr to_id \<Rightarrow>
               (case py_getitem data ''type'' of
                  Inl e \<Rightarrow> Inl e
                | Inr rel_type \<Rightarrow>
                    (case py_get data ''properties'' (PDict []) of
                       Inl e \<Rightarrow> Inl e
                     | Inr properties \<Rightarrow> Inr (from_id, to_id, rel_type, properties)))))"

definition create_relationship ::
  "'db driver \<Rightarrow> pyval \<Rightarrow> 'db \<Rightarrow> (py_exception + response) \<times> 'db" where
  "create_relationship drv data s =
     (if \<not> truthy data then (Inr required_fields_response, s)
      else
        (case all_fields_in data required_fields of
           Inl e \<Rightarrow> (Inl e, s)
         | Inr present \<Rightarrow>
             if \<not> present then (Inr required_fields_response, s)
             else
               (case create_relationship_args data of
                  Inl e \<Rightarrow> (Inr (error_json (exc_str e), 500), s)
                | Inr (from_id, to_id, rel_type, properties) \<Rightarrow>
                    (case Neo4jService_create_relationship drv from_id to_id rel_type
                            properties s of
                       (Inr result, s') \<Rightarrow> (Inr (jsonify (PDict result), 201), s')
                     | (Inl e, s') \<Rightarrow> (Inr (error_json (exc_str e), 500), s')))))"

definition run_cypher_args :: "pyval \<Rightarrow> py_exception + (pyval \<times> pyval)" where
  "run_cypher_args data =
     (case py_getitem data ''query'' of
        Inl e \<Rightarrow> Inl e
      | Inr query \<Rightarrow>
          (case py_get data ''params'' (PDict []) of
             Inl e \<Rightarrow> Inl e
           | Inr params \<Rightarrow> Inr (query, params)))"

definition run_cypher :: "'db driver \<Rightarrow> pyval \<Rightarrow> 'db \<Rightarrow> (py_exception + response) \<times> 'db" where
  "run_cypher drv data s =
     (if \<not> truthy data then (Inr (error_json ''Query required'', 400), s)
      else
        (case py_contains data ''query'' of
           Inl e \<Rightarrow> (Inl e, s)
         | Inr present \<Rightarrow>
             if \<not> present then (Inr (error_json ''Query required'', 400), s)
             else
               (case run_cypher_args data of
                  Inl e \<Rightarrow> (Inr (error_json (exc_str e), 500), s)
                | Inr (query, params) \<Rightarrow>
                    (case run_custom_query drv query params s of
                       (Inr result, s') \<Rightarrow>
                         (Inr (jsonify (PList (map PDict result)), 200), s')
                     | (Inl e, s') \<Rightarrow> (Inr (error_json (exc_str e), 500), s')))))"

section \<open>Predicates of the specification and a recording driver\<close>


text \<open>
  "The trivial connectivity probe succeeds": the query \<open>RETURN 1 AS result\<close> runs
  without an exception and its first record holds the value 1 under \<open>result\<close>.
\<close>

definition probe_succeeds :: "'db driver \<Rightarrow> 'db \<Rightarrow> bool" where
  "probe_succeeds drv s =
     (case fst (session_run drv ''RETURN 1 AS result'' PNone s) of
        Inl e \<Rightarrow> False
      | Inr [] \<Rightarrow> False
      | Inr (r # _) \<Rightarrow>
          (case map_of r ''result'' of None \<Rightarrow> False | Some v \<Rightarrow> py_eq_int v 1))"

text \<open>
  A driver for concrete runs. Its state is the log of the calls made to it, each with
  the name of the session method, the query text and the parameters; every call has
  the same given outcome.
\<close>

type_synonym call_log = "(string \<times> string \<times> pyval) list"

definition recording_driver :: "(py_exception + pydict list) \<Rightarrow> call_log driver" where
  "recording_driver outcome =
     \<lparr> session_run = (\<lambda>q p log. (outcome, log @ [(''run'', q, p)])),
       write_transaction = (\<lambda>q p log. (outcome, log @ [(''write_transaction'', q, p)])),
       format_value = (\<lambda>v. ''<value>'') \<rparr>"

definition connection_refused :: py_exception where
  "connection_refused = PyExc ''ServiceUnavailable'' ''Connection refused''"

section \<open>Auxiliary lemmas\<close>












lemma all_fields_in_dict:
  "all_fields_in (PDict d) fs = Inr (\<forall>f\<in>set fs. map_of d f \<noteq> None)"
  by (induction fs) auto

lemma fst_pair: "fst p = a \<Longrightarrow> p = (a, snd p)"
  by (cases p) simp

lemmas endpoint_simps = error_json_def jsonify_def

section \<open>Query routing\<close>



section \<open>Absent parameters\<close>

text \<open>
  Claim C10. For every query string, executing with the parameters absent (\<open>None\<close>)
  is executing with the empty mapping, on the read path and on the write path: the
  driver receives the same call and the outcome is the same.
\<close>

theorem execute_query_absent_params:
  "execute_read_query drv q PNone s = execute_read_query drv q (PDict []) s
   \<and> execute_write_query drv q PNone s = execute_write_query drv q (PDict []) s"
  by (simp add: execute_read_query_def execute_write_query_def py_or_def)

section \<open>Identifier extraction\<close>

text \<open>
  Claim C2. \<open>extract_node_id\<close> is claimed to fall through from each of its three steps
  to the next whenever the earlier step finds nothing. On the response
  \<open>{"n": {"name": "Alice Smith"}, "meta": {"id": 7}}\<close> the first step finds no
  \<open>identity\<close> and no \<open>id\<close> under \<open>n\<close>, and the function returns \<open>None\<close> there,
  although the recursive search of the third step, run on the same response, finds 7.
\<close>

theorem extract_node_id_no_fallthrough:
  "extract_node_id [(''n'', PDict [(''name'', PStr ''Alice Smith'')]),
                    (''meta'', PDict [(''id'', PInt 7)])] = Inr PNone
   \<and> find_id (PDict [(''n'', PDict [(''name'', PStr ''Alice Smith'')]),
                      (''meta'', PDict [(''id'', PInt 7)])]) = PInt 7"
  by (simp add: extract_node_id_def dict_get_def)

text \<open>
  Claim C8. For every response with a top-level key \<open>n\<close> whose value is a mapping that
  holds neither \<open>identity\<close> nor \<open>id\<close>, \<open>extract_node_id\<close> returns \<open>None\<close>: the first-key
  inspection and the recursive search are not attempted, whatever else the response
  holds.
\<close>

theorem extract_node_id_n_without_id:
  "map_of r ''n'' = Some (PDict nd) \<Longrightarrow> map_of nd ''identity'' = None \<Longrightarrow>
   map_of nd ''id'' = None \<Longrightarrow> extract_node_id r = Inr PNone"
  by (simp add: extract_node_id_def dict_get_def)

theorem extract_node_id_n_without_id_witness:
  "map_of [(''n'', PDict [(''labels'', PList [PStr ''Person''])]), (''id'', PInt 42)] ''n''
     = Some (PDict [(''labels'', PList [PStr ''Person''])])
   \<and> map_of [(''labels'', PList [PStr ''Person''])] ''identity'' = None
   \<and> map_of [(''labels'', PList [PStr ''Person''])] ''id'' = None
   \<and> find_id (PDict [(''n'', PDict [(''labels'', PList [PStr ''Person''])]), (''id'', PInt 42)])
       = PInt 42
   \<and> extract_node_id [(''n'', PDict [(''labels'', PList [PStr ''Person''])]), (''id'', PInt 42)]
       = Inr PNone"
  using extract_node_id_n_without_id
    [of "[(''n'', PDict [(''labels'', PList [PStr ''Person''])]), (''id'', PInt 42)]"
        "[(''labels'', PList [PStr ''Person''])]"]
  by simp

section \<open>Relationship creation\<close>

text \<open>
  Claim C3. Whether a node exists is decided by the database: when \<open>from_id\<close> or
  \<open>to_id\<close> identifies no node, the \<open>MATCH\<close> of the query yields nothing and the write
  transaction returns no rows. For every request body that holds the three required
  fields and every driver whose write transaction returns no rows for the query, the
  adapter's \<open>create_relationship\<close> returns the empty mapping without raising, and the
  endpoint answers 201 with the empty JSON object as body, not 404.
\<close>

theorem create_relationship_no_rows:
  assumes "map_of d ''from_id'' = Some from_id"
    and "map_of d ''to_id'' = Some to_id"
    and "map_of d ''type'' = Some rel_type"
    and "write_transaction drv (create_relationship_query (fstring_value drv rel_type))
           (PDict [(''from_id'', from_id), (''to_id'', to_id),
                   (''props'', py_or (dict_get d ''properties'' (PDict [])) (PDict []))]) s
         = (Inr [], s')"
  shows "Neo4jService_create_relationship drv from_id to_id rel_type
           (dict_get d ''properties'' (PDict [])) s = (Inr [], s')
         \<and> create_relationship drv (PDict d) s = (Inr (JsonBody (PDict []), 201), s')"
proof -
  have a: "Neo4jService_create_relationship drv from_id to_id rel_type
           (dict_get d ''properties'' (PDict [])) s = (Inr [], s')"
    using assms(4)
    by (simp add: Neo4jService_create_relationship_def execute_write_query_def py_or_def
          first_or_empty_def)
  have t: "truthy (PDict d)" using assms(1) by (cases d) auto
  have f: "all_fields_in (PDict d) required_fields = Inr True"
    using assms(1-3) by (simp add: all_fields_in_dict required_fields_def)
  have g: "create_relationship_args (PDict d) =
             Inr (from_id, to_id, rel_type, dict_get d ''properties'' (PDict []))"
    using assms(1-3) by (simp add: create_relationship_args_def)
  show ?thesis using a t f g by (simp add: create_relationship_def endpoint_simps)
qed

theorem create_relationship_no_rows_witness:
  "write_transaction (recording_driver (Inr []))
     (create_relationship_query ''WORKS_AT'')
     (PDict [(''from_id'', PInt 999998), (''to_id'', PInt 999999), (''props'', PDict [])]) []
   = (Inr [],
      [(''write_transaction'', create_relationship_query ''WORKS_AT'',
        PDict [(''from_id'', PInt 999998), (''to_id'', PInt 999999), (''props'', PDict [])])])
   \<and> create_relationship (recording_driver (Inr []))
     (PDict [(''from_id'', PInt 999998), (''to_id'', PInt 999999), (''type'', PStr ''WORKS_AT'')]) []
   = (Inr (JsonBody (PDict []), 201),
      [(''write_transaction'', create_relationship_query ''WORKS_AT'',
        PDict [(''from_id'', PInt 999998), (''to_id'', PInt 999999), (''props'', PDict [])])])"
  using create_relationship_no_rows
    [of "[(''from_id'', PInt 999998), (''to_id'', PInt 999999), (''type'', PStr ''WORKS_AT'')]"
        "PInt 999998" "PInt 999999" "PStr ''WORKS_AT''" "recording_driver (Inr [])" "[]"
        "[(''write_transaction'', create_relationship_query ''WORKS_AT'',
        PDict [(''from_id'', PInt 999998), (''to_id'', PInt 999999), (''props'', PDict [])])]"]
  by (simp add: recording_driver_def fstring_value_def dict_get_def py_or_def)

text \<open>
  Claim C7. For every request to \<open>POST /relationships\<close> that has no body (or a body
  that counts as false, such as \<open>{}\<close>) or whose body is a JSON object without at least
  one of \<open>from_id\<close>, \<open>to_id\<close>, \<open>type\<close>, the endpoint answers 400 with the message
  \<open>Required fields: from_id, to_id, type\<close>. The answer is the same for every driver
  and the database state is returned as it was: the adapter is not called.
\<close>

theorem create_relationship_missing_field:
  assumes "\<not> truthy data
           \<or> (\<exists>d. data = PDict d \<and> (\<exists>f\<in>set required_fields. map_of d f = None))"
  shows "create_relationship drv data s =
           (Inr (JsonBody (PDict [(''error'', PStr ''Required fields: from_id, to_id, type'')]),
                 400), s)"
proof -
  have r: "required_fields_response =
      (JsonBody (PDict [(''error'', PStr ''Required fields: from_id, to_id, type'')]), 400)"
    by (simp add: required_fields_response_def required_fields_def endpoint_simps)
  from assms show ?thesis
  proof
    assume "\<not> truthy data"
    then show ?thesis by (simp add: create_relationship_def r)
  next
    assume "\<exists>d. data = PDict d \<and> (\<exists>f\<in>set required_fields. map_of d f = None)"
    then obtain d where d: "data = PDict d" and m: "\<exists>f\<in>set required_fields. map_of d f = None"
      by blast
    from m have "all_fields_in (PDict d) required_fields = Inr False"
      by (simp only: all_fields_in_dict) auto
    then show ?thesis by (simp add: create_relationship_def r d)
  qed
qed

theorem create_relationship_missing_field_witness:
  "(\<exists>f\<in>set required_fields. map_of [(''from_id'', PInt 1), (''to_id'', PInt 2)] f = None)
   \<and> create_relationship (recording_driver (Inr [[(''r'', PDict [])]]))
        (PDict [(''from_id'', PInt 1), (''to_id'', PInt 2)]) []
       = (Inr (JsonBody (PDict [(''error'', PStr ''Required fields: from_id, to_id, type'')]),
               400), [])
   \<and> \<not> truthy PNone
   \<and> create_relationship (recording_driver (Inr [[(''r'', PDict [])]])) PNone []
       = (Inr (JsonBody (PDict [(''error'', PStr ''Required fields: from_id, to_id, type'')]),
               400), [])"
proof -
  have m: "\<exists>f\<in>set required_fields. map_of [(''from_id'', PInt 1), (''to_id'', PInt 2)] f = None"
    by (simp add: required_fields_def)
  then have "\<exists>d. PDict [(''from_id'', PInt 1), (''to_id'', PInt 2)] = PDict d
               \<and> (\<exists>f\<in>set required_fields. map_of d f = None)"
    by blast
  from create_relationship_missing_field
         [OF disjI2, OF this, of "recording_driver (Inr [[(''r'', PDict [])]])" "[]"]
       create_relationship_missing_field
         [of PNone "recording_driver (Inr [[(''r'', PDict [])]])" "[]"] m
  show ?thesis by simp
qed

section \<open>Node endpoints\<close>

text \<open>
  Claim C9. For every request to \<open>POST /nodes/{label}\<close> or \<open>PUT /nodes/{id}\<close> whose
  parsed body is the empty mapping \<open>{}\<close>, the endpoint answers 400 with the body
  \<open>{"error": "No data provided"}\<close>. The answer is the same for every driver and the
  database state is returned as it was: the adapter is not called.
\<close>

theorem empty_mapping_rejected:
  "create_node drv label (PDict []) s
     = (Inr (JsonBody (PDict [(''error'', PStr ''No data provided'')]), 400), s)
   \<and> update_node drv node_id (PDict []) s
     = (Inr (JsonBody (PDict [(''error'', PStr ''No data provided'')]), 400), s)"
  by (simp add: create_node_def update_node_def endpoint_simps)

section \<open>Health check\<close>

text \<open>
  Claim C5. \<open>GET /health\<close> answers 200 with the body
  \<open>{"status": "healthy", "database_connection": true}\<close> exactly when the connectivity
  probe succeeds, and 503 with \<open>status\<close> \<open>unhealthy\<close> otherwise. \<open>verify_connectivity\<close>
  returns the outcome of the probe as a boolean; whenever the probe raises inside the
  \<open>try\<close> block, the exception is caught and the result is \<open>False\<close>.
\<close>

theorem health_check_probe:
  "(fst (health_check drv s) =
      Inr (JsonBody (PDict [(''status'', PStr ''healthy''),
                            (''database_connection'', PBool True)]), 200))
     = probe_succeeds drv s
   \<and> (\<not> probe_succeeds drv s \<longrightarrow>
        fst (health_check drv s) =
          Inr (JsonBody (PDict [(''status'', PStr ''unhealthy''),
                                (''database_connection'', PBool False)]), 503))
   \<and> fst (verify_connectivity drv s) = probe_succeeds drv s
   \<and> (\<forall>e s'. verify_connectivity_try drv s = (Inl e, s') \<longrightarrow>
        verify_connectivity drv s = (False, s'))"
proof -
  have v: "fst (verify_connectivity drv s) = probe_succeeds drv s"
    by (cases "session_run drv ''RETURN 1 AS result'' PNone s")
       (auto simp: verify_connectivity_def verify_connectivity_try_def probe_succeeds_def
          single_def split: sum.splits list.splits option.splits)
  have h: "fst (health_check drv s) =
      (if fst (verify_connectivity drv s)
       then Inr (JsonBody (PDict [(''status'', PStr ''healthy''),
                            (''database_connection'', PBool True)]), 200)
       else Inr (JsonBody (PDict [(''status'', PStr ''unhealthy''),
                                (''database_connection'', PBool False)]), 503))"
    by (cases "verify_connectivity drv s") (simp add: health_check_def jsonify_def)
  have c: "\<forall>e s'. verify_connectivity_try drv s = (Inl e, s') \<longrightarrow>
        verify_connectivity drv s = (False, s')"
    by (simp add: verify_connectivity_def)
  from v h c show ?thesis by simp
qed

theorem health_check_probe_witness:
  "probe_succeeds (recording_driver (Inr [[(''result'', PInt 1)]])) []
   \<and> fst (health_check (recording_driver (Inr [[(''result'', PInt 1)]])) []) =
       Inr (JsonBody (PDict [(''status'', PStr ''healthy''),
                             (''database_connection'', PBool True)]), 200)
   \<and> \<not> probe_succeeds (recording_driver (Inl connection_refused)) []
   \<and> fst (health_check (recording_driver (Inl connection_refused)) []) =
       Inr (JsonBody (PDict [(''status'', PStr ''unhealthy''),
                             (''database_connection'', PBool False)]), 503)
   \<and> verify_connectivity_try (recording_driver (Inl connection_refused)) [] =
       (Inl connection_refused, [(''run'', ''RETURN 1 AS result'', PNone)])
   \<and> verify_connectivity (recording_driver (Inl connection_refused)) [] =
       (False, [(''run'', ''RETURN 1 AS result'', PNone)])"
proof -
  have p: "probe_succeeds (recording_driver (Inr [[(''result'', PInt 1)]])) []"
    by (simp add: probe_succeeds_def recording_driver_def)
  have n: "\<not> probe_succeeds (recording_driver (Inl connection_refused)) []"
    by (simp add: probe_succeeds_def recording_driver_def)
  have t: "verify_connectivity_try (recording_driver (Inl connection_refused)) [] =
       (Inl connection_refused, [(''run'', ''RETURN 1 AS result'', PNone)])"
    by (simp add: verify_connectivity_try_def recording_driver_def)
  from health_check_probe [of "recording_driver (Inr [[(''result'', PInt 1)]])" "[]"]
       health_check_probe [of "recording_driver (Inl connection_refused)" "[]"] p n t
  show ?thesis by simp
qed

section \<open>Node deletion\<close>

text \<open>
  Claim C6. The adapter's \<open>delete_node\<close> returns \<open>False\<close> when the delete query
  returns no rows, and otherwise returns whether the count under \<open>deleted\<close> in the
  first row is greater than zero. The endpoint answers 204 with an empty body when
  the adapter returns \<open>True\<close>, 404 when it returns \<open>False\<close>, 500 with the exception's
  message when the adapter raises, and 500 in no other case.
\<close>

theorem delete_node_outcomes:
  "(execute_write_query drv delete_node_query (PDict [(''node_id'', PInt node_id)]) s
      = (Inr [], s') \<longrightarrow>
        Neo4jService_delete_node drv node_id s = (Inr False, s'))
   \<and> (execute_write_query drv delete_node_query (PDict [(''node_id'', PInt node_id)]) s
        = (Inr (r # rest), s') \<and> map_of r ''deleted'' = Some (PInt n) \<longrightarrow>
        Neo4jService_delete_node drv node_id s = (Inr (0 < n), s'))
   \<and> (Neo4jService_delete_node drv node_id s = (Inr True, s') \<longrightarrow>
        delete_node drv node_id s = (Inr (TextBody [], 204), s'))
   \<and> (Neo4jService_delete_node drv node_id s = (Inr False, s') \<longrightarrow>
        delete_node drv node_id s =
          (Inr (JsonBody (PDict [(''error'', PStr ''Node not found'')]), 404), s'))
   \<and> (Neo4jService_delete_node drv node_id s = (Inl e, s') \<longrightarrow>
        delete_node drv node_id s =
          (Inr (JsonBody (PDict [(''error'', PStr (exc_str e))]), 500), s'))
   \<and> (\<forall>body. fst (delete_node drv node_id s) = Inr (body, 500) \<longrightarrow>
        (\<exists>e. fst (Neo4jService_delete_node drv node_id s) = Inl e))"
proof -
  have a: "\<forall>body. fst (delete_node drv node_id s) = Inr (body, 500) \<longrightarrow>
        (\<exists>e. fst (Neo4jService_delete_node drv node_id s) = Inl e)"
    by (cases "Neo4jService_delete_node drv node_id s")
       (auto simp: delete_node_def split: sum.splits if_splits)
  show ?thesis
    using a
    by (simp add: Neo4jService_delete_node_def deleted_positive_def delete_node_def
          endpoint_simps)
qed


theorem delete_node_outcomes_witness:
  "Neo4jService_delete_node (recording_driver (Inr [[(''deleted'', PInt 1)]])) 7 []
     = (Inr True, [(''write_transaction'', delete_node_query, PDict [(''node_id'', PInt 7)])])
   \<and> delete_node (recording_driver (Inr [[(''deleted'', PInt 1)]])) 7 []
     = (Inr (TextBody [], 204),
        [(''write_transaction'', delete_node_query, PDict [(''node_id'', PInt 7)])])
   \<and> Neo4jService_delete_node (recording_driver (Inr [[(''deleted'', PInt 0)]])) 7 []
     = (Inr False, [(''write_transaction'', delete_node_query, PDict [(''node_id'', PInt 7)])])
   \<and> delete_node (recording_driver (Inr [[(''deleted'', PInt 0)]])) 7 []
     = (Inr (JsonBody (PDict [(''error'', PStr ''Node not found'')]), 404),
        [(''write_transaction'', delete_node_query, PDict [(''node_id'', PInt 7)])])
   \<and> Neo4jService_delete_node (recording_driver (Inr [])) 7 []
     = (Inr False, [(''write_transaction'', delete_node_query, PDict [(''node_id'', PInt 7)])])
   \<and> Neo4jService_delete_node (recording_driver (Inl connection_refused)) 7 []
     = (Inl connection_refused,
        [(''write_transaction'', delete_node_query, PDict [(''node_id'', PInt 7)])])
   \<and> delete_node (recording_driver (Inl connection_refused)) 7 []
     = (Inr (JsonBody (PDict [(''error'', PStr ''Connection refused'')]), 500),
        [(''write_transaction'', delete_node_query, PDict [(''node_id'', PInt 7)])])"
proof -
  let ?log = "[(''write_transaction'', delete_node_query, PDict [(''node_id'', PInt 7)])]"
  have x: "\<And>outcome. execute_write_query (recording_driver outcome) delete_node_query
             (PDict [(''node_id'', PInt 7)]) [] = (outcome, ?log)"
    by (simp add: execute_write_query_def recording_driver_def py_or_def)
  have one: "Neo4jService_delete_node (recording_driver (Inr [[(''deleted'', PInt 1)]])) 7 []
               = (Inr True, ?log)"
    using delete_node_outcomes
            [where drv = "recording_driver (Inr [[(''deleted'', PInt 1)]])" and node_id = 7
               and s = "[]" and s' = ?log and r = "[(''deleted'', PInt 1)]" and rest = "[]"
               and n = 1]
          x [of "Inr [[(''deleted'', PInt 1)]]"]
    by simp
  have one': "delete_node (recording_driver (Inr [[(''deleted'', PInt 1)]])) 7 []
               = (Inr (TextBody [], 204), ?log)"
    using delete_node_outcomes
            [where drv = "recording_driver (Inr [[(''deleted'', PInt 1)]])" and node_id = 7
               and s = "[]" and s' = ?log]
          one
    by simp
  have zero: "Neo4jService_delete_node (recording_driver (Inr [[(''deleted'', PInt 0)]])) 7 []
               = (Inr False, ?log)"
    using delete_node_outcomes
            [where drv = "recording_driver (Inr [[(''deleted'', PInt 0)]])" and node_id = 7
               and s = "[]" and s' = ?log and r = "[(''deleted'', PInt 0)]" and rest = "[]"
               and n = 0]
          x [of "Inr [[(''deleted'', PInt 0)]]"]
    by simp
  have zero': "delete_node (recording_driver (Inr [[(''deleted'', PInt 0)]])) 7 []
               = (Inr (JsonBody (PDict [(''error'', PStr ''Node not found'')]), 404), ?log)"
    using delete_node_outcomes
            [where drv = "recording_driver (Inr [[(''deleted'', PInt 0)]])" and node_id = 7
               and s = "[]" and s' = ?log]
          zero
    by simp
  have none: "Neo4jService_delete_node (recording_driver (Inr [])) 7 [] = (Inr False, ?log)"
    using delete_node_outcomes
            [where drv = "recording_driver (Inr [])" and node_id = 7
               and s = "[]" and s' = ?log]
          x [of "Inr []"]
    by simp
  have exc: "Neo4jService_delete_node (recording_driver (Inl connection_refused)) 7 []
               = (Inl connection_refused, ?log)"
    using x [of "Inl connection_refused"] by (simp add: Neo4jService_delete_node_def)
  have exc': "delete_node (recording_driver (Inl connection_refused)) 7 []
               = (Inr (JsonBody (PDict [(''error'', PStr ''Connection refused'')]), 500), ?log)"
    using delete_node_outcomes
            [where drv = "recording_driver (Inl connection_refused)" and node_id = 7
               and s = "[]" and s' = ?log and e = connection_refused]
          exc
    by (simp add: connection_refused_def)
  from one one' zero zero' none exc exc' show ?thesis by simp
qed

section \<open>Adapter exceptions\<close>

text \<open>
  Claim C4. In each of the six endpoints that call the adapter (create, get, update
  and delete node, create relationship, run query), an exception raised by the adapter
  call is caught and answered with status 500 and the body \<open>{"error": str(e)}\<close>. The four
  node handlers raise on no input, and the relationship and query handlers raise on no
  input that passes the membership test on the body, so no exception of the adapter
  leaves a handler. (The membership test itself stands before the \<open>try\<close> block and
  raises \<open>TypeError\<close> on a body that is a non-zero number or \<open>true\<close>; that exception is
  not the adapter's.)
\<close>

theorem adapter_exception_becomes_500:
  "(truthy data \<and> Neo4jService_create_node drv label data s = (Inl e, s') \<longrightarrow>
      create_node drv label data s =
        (Inr (JsonBody (PDict [(''error'', PStr (exc_str e))]), 500), s'))
   \<and> (get_node_by_id drv node_id s = (Inl e, s') \<longrightarrow>
        get_node drv node_id s =
          (Inr (JsonBody (PDict [(''error'', PStr (exc_str e))]), 500), s'))
   \<and> (truthy data \<and> Neo4jService_update_node drv node_id data s = (Inl e, s') \<longrightarrow>
        update_node drv node_id data s =
          (Inr (JsonBody (PDict [(''error'', PStr (exc_str e))]), 500), s'))
   \<and> (Neo4jService_delete_node drv node_id s = (Inl e, s') \<longrightarrow>
        delete_node drv node_id s =
          (Inr (JsonBody (PDict [(''error'', PStr (exc_str e))]), 500), s'))
   \<and> (truthy data \<and> all_fields_in data required_fields = Inr True
        \<and> create_relationship_args data = Inr (from_id, to_id, rel_type, properties)
        \<and> Neo4jService_create_relationship drv from_id to_id rel_type properties s
            = (Inl e, s') \<longrightarrow>
        create_relationship drv data s =
          (Inr (JsonBody (PDict [(''error'', PStr (exc_str e))]), 500), s'))
   \<and> (truthy data \<and> py_contains data ''query'' = Inr True
        \<and> run_cypher_args data = Inr (query, params)
        \<and> run_custom_query drv query params s = (Inl e, s') \<longrightarrow>
        run_cypher drv data s =
          (Inr (JsonBody (PDict [(''error'', PStr (exc_str e))]), 500), s'))
   \<and> \<not> isl (fst (create_node drv label data s))
   \<and> \<not> isl (fst (get_node drv node_id s))
   \<and> \<not> isl (fst (update_node drv node_id data s))
   \<and> \<not> isl (fst (delete_node drv node_id s))
   \<and> (\<not> isl (all_fields_in data required_fields) \<longrightarrow>
        \<not> isl (fst (create_relationship drv data s)))
   \<and> (\<not> isl (py_contains data ''query'') \<longrightarrow> \<not> isl (fst (run_cypher drv data s)))"
proof -
  have c: "\<not> isl (fst (create_node drv label data s))"
    by (cases "Neo4jService_create_node drv label data s")
       (auto simp: create_node_def split: sum.splits)
  have g: "\<not> isl (fst (get_node drv node_id s))"
    by (cases "get_node_by_id drv node_id s")
       (auto simp: get_node_def split: sum.splits option.splits)
  have u: "\<not> isl (fst (update_node drv node_id data s))"
    by (cases "Neo4jService_update_node drv node_id data s")
       (auto simp: update_node_def split: sum.splits)
  have d: "\<not> isl (fst (delete_node drv node_id s))"
    by (cases "Neo4jService_delete_node drv node_id s")
       (auto simp: delete_node_def split: sum.splits)
  have r: "\<not> isl (all_fields_in data required_fields) \<longrightarrow>
        \<not> isl (fst (create_relationship drv data s))"
    by (auto simp: create_relationship_def split: sum.splits prod.splits)
  have q: "\<not> isl (py_contains data ''query'') \<longrightarrow> \<not> isl (fst (run_cypher drv data s))"
    by (auto simp: run_cypher_def split: sum.splits prod.splits)
  show ?thesis
    using c g u d r q
    by (simp add: create_node_def get_node_def update_node_def delete_node_def
          create_relationship_def run_cypher_def endpoint_simps)
qed

theorem adapter_exception_becomes_500_witness:
  "fst (Neo4jService_create_node (recording_driver (Inl connection_refused)) ''Person''
          (PDict [(''name'', PStr ''Alice Smith'')]) []) = Inl connection_refused
   \<and> fst (create_node (recording_driver (Inl connection_refused)) ''Person''
          (PDict [(''name'', PStr ''Alice Smith'')]) [])
       = Inr (JsonBody (PDict [(''error'', PStr ''Connection refused'')]), 500)
   \<and> fst (get_node (recording_driver (Inl connection_refused)) 7 [])
       = Inr (JsonBody (PDict [(''error'', PStr ''Connection refused'')]), 500)
   \<and> fst (update_node (recording_driver (Inl connection_refused)) 7
          (PDict [(''age'', PInt 33)]) [])
       = Inr (JsonBody (PDict [(''error'', PStr ''Connection refused'')]), 500)
   \<and> fst (delete_node (recording_driver (Inl connection_refused)) 7 [])
       = Inr (JsonBody (PDict [(''error'', PStr ''Connection refused'')]), 500)
   \<and> fst (create_relationship (recording_driver (Inl connection_refused))
          (PDict [(''from_id'', PInt 1), (''to_id'', PInt 2), (''type'', PStr ''WORKS_AT'')]) [])
       = Inr (JsonBody (PDict [(''error'', PStr ''Connection refused'')]), 500)
   \<and> fst (run_cypher (recording_driver (Inl connection_refused))
          (PDict [(''query'', PStr ''MATCH (n) RETURN n'')]) [])
       = Inr (JsonBody (PDict [(''error'', PStr ''Connection refused'')]), 500)"
proof -
  let ?drv = "recording_driver (Inl connection_refused)"
  let ?person = "PDict [(''name'', PStr ''Alice Smith'')]"
  let ?age = "PDict [(''age'', PInt 33)]"
  let ?rel = "PDict [(''from_id'', PInt 1), (''to_id'', PInt 2), (''type'', PStr ''WORKS_AT'')]"
  let ?cy = "PDict [(''query'', PStr ''MATCH (n) RETURN n'')]"
  have m: "exc_str connection_refused = ''Connection refused''"
    by (simp add: connection_refused_def)
  have c0: "fst (Neo4jService_create_node ?drv ''Person'' ?person []) = Inl connection_refused"
    by (simp add: Neo4jService_create_node_def execute_write_query_def recording_driver_def)
  have c: "fst (create_node ?drv ''Person'' ?person [])
             = Inr (JsonBody (PDict [(''error'', PStr ''Connection refused'')]), 500)"
    using adapter_exception_becomes_500
            [where drv = ?drv and label = "''Person''" and data = ?person and s = "[]"
               and e = connection_refused
               and s' = "snd (Neo4jService_create_node ?drv ''Person'' ?person [])"]
          fst_pair [OF c0] m
    by simp
  have g0: "fst (get_node_by_id ?drv 7 []) = Inl connection_refused"
    by (simp add: get_node_by_id_def execute_read_query_def recording_driver_def)
  have g: "fst (get_node ?drv 7 [])
             = Inr (JsonBody (PDict [(''error'', PStr ''Connection refused'')]), 500)"
    using adapter_exception_becomes_500
            [where drv = ?drv and node_id = 7 and s = "[]" and e = connection_refused
               and s' = "snd (get_node_by_id ?drv 7 [])"]
          fst_pair [OF g0] m
    by simp
  have u0: "fst (Neo4jService_update_node ?drv 7 ?age []) = Inl connection_refused"
    by (simp add: Neo4jService_update_node_def execute_write_query_def recording_driver_def)
  have u: "fst (update_node ?drv 7 ?age [])
             = Inr (JsonBody (PDict [(''error'', PStr ''Connection refused'')]), 500)"
    using adapter_exception_becomes_500
            [where drv = ?drv and node_id = 7 and data = ?age and s = "[]"
               and e = connection_refused
               and s' = "snd (Neo4jService_update_node ?drv 7 ?age [])"]
          fst_pair [OF u0] m
    by simp
  have d0: "fst (Neo4jService_delete_node ?drv 7 []) = Inl connection_refused"
    by (simp add: Neo4jService_delete_node_def execute_write_query_def recording_driver_def)
  have d: "fst (delete_node ?drv 7 [])
             = Inr (JsonBody (PDict [(''error'', PStr ''Connection refused'')]), 500)"
    using adapter_exception_becomes_500
            [where drv = ?drv and node_id = 7 and s = "[]" and e = connection_refused
               and s' = "snd (Neo4jService_delete_node ?drv 7 [])"]
          fst_pair [OF d0] m
    by simp
  have r0: "fst (Neo4jService_create_relationship ?drv (PInt 1) (PInt 2) (PStr ''WORKS_AT'')
                   (PDict []) []) = Inl connection_refused"
    by (simp add: Neo4jService_create_relationship_def execute_write_query_def
          recording_driver_def)
  have r1: "all_fields_in ?rel required_fields = Inr True"
    by (simp add: required_fields_def)
  have r2: "create_relationship_args ?rel = Inr (PInt 1, PInt 2, PStr ''WORKS_AT'', PDict [])"
    by (simp add: create_relationship_args_def dict_get_def)
  have r: "fst (create_relationship ?drv ?rel [])
             = Inr (JsonBody (PDict [(''error'', PStr ''Connection refused'')]), 500)"
    using adapter_exception_becomes_500
            [where drv = ?drv and data = ?rel and s = "[]" and e = connection_refused
               and from_id = "PInt 1" and to_id = "PInt 2" and rel_type = "PStr ''WORKS_AT''"
               and properties = "PDict []"
               and s' = "snd (Neo4jService_create_relationship ?drv (PInt 1) (PInt 2)
                                (PStr ''WORKS_AT'') (PDict []) [])"]
          fst_pair [OF r0] r1 r2 m
    by simp
  have q0: "fst (run_custom_query ?drv (PStr ''MATCH (n) RETURN n'') (PDict []) [])
              = Inl connection_refused"
    by (simp add: run_custom_query_def execute_write_query_def execute_read_query_def
          recording_driver_def)
  have q2: "run_cypher_args ?cy = Inr (PStr ''MATCH (n) RETURN n'', PDict [])"
    by (simp add: run_cypher_args_def dict_get_def)
  have q: "fst (run_cypher ?drv ?cy [])
             = Inr (JsonBody (PDict [(''error'', PStr ''Connection refused'')]), 500)"
    using adapter_exception_becomes_500
            [where drv = ?drv and data = ?cy and s = "[]" and e = connection_refused
               and query = "PStr ''MATCH (n) RETURN n''" and params = "PDict []"
               and s' = "snd (run_custom_query ?drv (PStr ''MATCH (n) RETURN n'')
                                (PDict []) [])"]
          fst_pair [OF q0] q2 m
    by simp
  from c0 c g u d r q show ?thesis by simp
qed

end
